theory Spec2Isabelle
  imports Main "HOL-Library.Word"
begin

unbundle bit_operations_syntax

section \<open>Source.Python memory tools: raw pointers, dynamic calls and hooks\<close>

text \<open>
  A shallow embedding of \<^verbatim>\<open>src/core/modules/memory/memory_tools.cpp\<close>.

  The module wraps addresses in \<^verbatim>\<open>unsigned long\<close>, so it is built for a target where
  \<^verbatim>\<open>unsigned long\<close>, \<^verbatim>\<open>int\<close> and pointers are all 32 bits wide (the 32-bit x86 builds
  of the Source engine, little endian). Unsigned arithmetic wraps around, as in C.
  Process memory is a total function from addresses to bytes: the code does no bounds
  checking, and an access violation is outside the model.
\<close>

type_synonym ulong = "32 word"
type_synonym cint = "32 word"
type_synonym byte = "8 word"
type_synonym memory = "ulong \<Rightarrow> byte"

subsection \<open>Exceptions\<close>

text \<open>
  Every failure of the module is a Python exception raised through
  \<^verbatim>\<open>BOOST_RAISE_EXCEPTION\<close>; they differ by their message. One constructor per kind:
  \<^item> \<open>InvalidPointer\<close>: "Pointer is NULL.", "At least one pointer is NULL.",
    "Function pointer is NULL.";
  \<^item> \<open>RangeTooSmall\<close>: "Search range is too small.";
  \<^item> \<open>OverlapViolation\<close>: "Pointers are overlapping!";
  \<^item> \<open>ArgumentCountMismatch\<close>: "Number of passed arguments is not equal to the required
    number.";
  \<^item> \<open>UnsupportedType\<close>: "Unknown argument type.", "Unknown return type.";
  \<^item> \<open>NotHooked\<close>: "Function was not hooked.";
  \<^item> \<open>PythonError\<close>: any other exception of the Python layer under the module (a failed
    Boost.Python \<^verbatim>\<open>extract\<close>, a tuple index out of range).
\<close>

datatype error =
    InvalidPointer
  | RangeTooSmall
  | OverlapViolation
  | ArgumentCountMismatch
  | UnsupportedType
  | NotHooked
  | PythonError

subsection \<open>Memory primitives of the C library\<close>

text \<open>\<^verbatim>\<open>*(unsigned long *) a\<close>, read and written, little endian.\<close>

definition load_ulong :: "memory \<Rightarrow> ulong \<Rightarrow> ulong" where
  "load_ulong m a =
     ucast (m a) OR push_bit 8 (ucast (m (a + 1))) OR push_bit 16 (ucast (m (a + 2)))
       OR push_bit 24 (ucast (m (a + 3)))"

definition store_ulong :: "memory \<Rightarrow> ulong \<Rightarrow> ulong \<Rightarrow> memory" where
  "store_ulong m a v =
     m(a := ucast v, a + 1 := ucast (drop_bit 8 v), a + 2 := ucast (drop_bit 16 v),
       a + 3 := ucast (drop_bit 24 v))"

fun write_bytes :: "memory \<Rightarrow> ulong \<Rightarrow> byte list \<Rightarrow> memory" where
  "write_bytes m a [] = m"
| "write_bytes m a (b # bs) = write_bytes (m(a := b)) (a + 1) bs"

text \<open>
  \<^verbatim>\<open>strcpy(dst, src)\<close>: the bytes of \<open>src\<close> up to its first NUL, and the NUL. The source
  string is a value here (the characters Boost.Python hands over as \<^verbatim>\<open>char*\<close>).
\<close>

definition strcpy :: "memory \<Rightarrow> ulong \<Rightarrow> byte list \<Rightarrow> memory" where
  "strcpy m dst src = write_bytes m dst (takeWhile (\<lambda>b. b \<noteq> 0) src @ [0])"

text \<open>
  \<^verbatim>\<open>memcmp\<close>: 0 when the \<open>n\<close> bytes agree, else the difference of the first two bytes
  that differ, as unsigned values. The C standard fixes the sign of the result only; the
  difference is the value of the GNU C library.
\<close>

fun memcmp :: "memory \<Rightarrow> ulong \<Rightarrow> ulong \<Rightarrow> nat \<Rightarrow> int" where
  "memcmp m p q 0 = 0"
| "memcmp m p q (Suc n) =
     (if m p = m q then memcmp m (p + 1) (q + 1) n
      else int (unat (m p)) - int (unat (m q)))"

text \<open>\<^verbatim>\<open>memcpy\<close>, as a forward byte copy; \<^verbatim>\<open>memmove\<close> copies as if through a buffer.\<close>

fun memcpy :: "memory \<Rightarrow> ulong \<Rightarrow> ulong \<Rightarrow> nat \<Rightarrow> memory" where
  "memcpy m dst src 0 = m"
| "memcpy m dst src (Suc n) = memcpy (m(dst := m src)) (dst + 1) (src + 1) n"

definition memmove :: "memory \<Rightarrow> ulong \<Rightarrow> ulong \<Rightarrow> nat \<Rightarrow> memory" where
  "memmove m dst src n = (\<lambda>a. if unat (a - dst) < n then m (src + (a - dst)) else m a)"

subsection \<open>CPointer objects\<close>

text \<open>
  A \<^verbatim>\<open>CPointer\<close> has one field. The objects live in the host's object heap: \<open>objects\<close>
  maps the reference of each object to its state, \<open>next_ref\<close> is the reference the next
  \<^verbatim>\<open>new CPointer(...)\<close> returns. This is the object-level view: a method reads
  \<^verbatim>\<open>m_ulAddr\<close> of an object there. In the process the field of an object is itself
  four bytes of \<open>memory\<close>, at an address the allocator chose; the subsection on the
  storage of the objects below relates the two.
\<close>

record CPointer =
  m_ulAddr :: ulong

type_synonym ref = nat

record world =
  memory :: memory
  objects :: "ref \<Rightarrow> CPointer"
  next_ref :: ref

definition new_CPointer :: "world \<Rightarrow> ulong \<Rightarrow> ref \<times> world" where
  "new_CPointer w ulAddr =
     (next_ref w,
      w\<lparr>objects := (objects w)(next_ref w := \<lparr>m_ulAddr = ulAddr\<rparr>),
        next_ref := Suc (next_ref w)\<rparr>)"

text \<open>
  Modelled from the spec: \<^verbatim>\<open>IsValid\<close> is declared in \<^verbatim>\<open>memory_tools.h\<close>, which is not
  among the sources. The spec: "\<^verbatim>\<open>IsValid() -> bool\<close>: address \<open>\<noteq>\<close> 0".
\<close>

definition IsValid :: "'a CPointer_scheme \<Rightarrow> bool" where
  "IsValid p = (m_ulAddr p \<noteq> 0)"

text \<open>
  Modelled from the spec: \<^verbatim>\<open>ExtractPyPtr\<close> is defined in \<^verbatim>\<open>utility/sp_util.h\<close>, which is
  not among the sources. The spec: a pointer-like value is "either a wrapped pointer or a
  raw numeric address", with "one explicit extraction function".
\<close>

datatype AddressLike = RawPointer ref | Address ulong

definition ExtractPyPtr :: "world \<Rightarrow> AddressLike \<Rightarrow> ulong" where
  "ExtractPyPtr w oPtr =
     (case oPtr of RawPointer r \<Rightarrow> m_ulAddr (objects w r) | Address a \<Rightarrow> a)"

subsection \<open>CPointer methods\<close>

definition SetStringPtr :: "world \<Rightarrow> ref \<Rightarrow> byte list \<Rightarrow> cint \<Rightarrow> (error + unit) \<times> world" where
  "SetStringPtr w this szText iOffset =
     (if \<not> IsValid (objects w this) then (Inl InvalidPointer, w)
      else (Inr (),
            w\<lparr>memory :=
                strcpy (memory w)
                  (load_ulong (memory w) (m_ulAddr (objects w this) + iOffset)) szText\<rparr>))"

definition GetStringArray :: "world \<Rightarrow> ref \<Rightarrow> cint \<Rightarrow> (error + ulong) \<times> world" where
  "GetStringArray w this iOffset =
     (if \<not> IsValid (objects w this) then (Inl InvalidPointer, w)
      else (Inr (m_ulAddr (objects w this) + iOffset), w))"

definition SetStringArray :: "world \<Rightarrow> ref \<Rightarrow> byte list \<Rightarrow> cint \<Rightarrow> (error + unit) \<times> world" where
  "SetStringArray w this szText iOffset =
     (if \<not> IsValid (objects w this) then (Inl InvalidPointer, w)
      else (Inr (),
            w\<lparr>memory := strcpy (memory w) (m_ulAddr (objects w this) + iOffset) szText\<rparr>))"

definition GetPtr :: "world \<Rightarrow> ref \<Rightarrow> cint \<Rightarrow> (error + ref) \<times> world" where
  "GetPtr w this iOffset =
     (if \<not> IsValid (objects w this) then (Inl InvalidPointer, w)
      else (let (r, w') =
                  new_CPointer w (load_ulong (memory w) (m_ulAddr (objects w this) + iOffset))
            in (Inr r, w')))"

text \<open>\<^verbatim>\<open>SetPtr\<close> stores at \<^verbatim>\<open>m_ulAddr\<close>: the body does not use \<^verbatim>\<open>iOffset\<close>.\<close>

definition SetPtr :: "world \<Rightarrow> ref \<Rightarrow> ref \<Rightarrow> cint \<Rightarrow> (error + unit) \<times> world" where
  "SetPtr w this ptr iOffset =
     (if \<not> IsValid (objects w this) then (Inl InvalidPointer, w)
      else (Inr (),
            w\<lparr>memory :=
                store_ulong (memory w) (m_ulAddr (objects w this)) (m_ulAddr (objects w ptr))\<rparr>))"

definition Compare :: "world \<Rightarrow> ref \<Rightarrow> AddressLike \<Rightarrow> ulong \<Rightarrow> (error + int) \<times> world" where
  "Compare w this oOther ulNum =
     (let ulOther = ExtractPyPtr w oOther in
      if m_ulAddr (objects w this) = 0 \<or> ulOther = 0 then (Inl InvalidPointer, w)
      else (Inr (memcmp (memory w) (m_ulAddr (objects w this)) ulOther (unat ulNum)), w))"

definition IsOverlapping :: "world \<Rightarrow> ref \<Rightarrow> AddressLike \<Rightarrow> ulong \<Rightarrow> bool" where
  "IsOverlapping w this oOther ulNumBytes =
     (let ulOther = ExtractPyPtr w oOther in
      if m_ulAddr (objects w this) \<le> ulOther
      then m_ulAddr (objects w this) + ulNumBytes > ulOther
      else ulOther + ulNumBytes > m_ulAddr (objects w this))"

text \<open>
  The inner loop of \<^verbatim>\<open>SearchBytes\<close> at one position \<open>p = base + i\<close>, over the pattern
  bytes from index \<open>i\<close> on: \<^verbatim>\<open>continue\<close> where the byte of memory is \<^verbatim>\<open>'\x2A'\<close>,
  \<^verbatim>\<open>break\<close> where pattern and memory differ. The result says whether \<open>i\<close> reached
  \<^verbatim>\<open>iByteLen\<close>.
\<close>

fun match_at :: "memory \<Rightarrow> ulong \<Rightarrow> byte list \<Rightarrow> bool" where
  "match_at m p [] = True"
| "match_at m p (b # bs) =
     (if m p = 0x2A then match_at m (p + 1) bs
      else if b \<noteq> m p then False
      else match_at m (p + 1) bs)"

function search_loop :: "memory \<Rightarrow> byte list \<Rightarrow> ulong \<Rightarrow> ulong \<Rightarrow> ulong option" where
  "search_loop m bytes base endp =
     (if base < endp
      then (if match_at m base bytes then Some base
            else search_loop m bytes (base + 1) endp)
      else None)"
  by pat_completeness auto
termination
  by (relation "measure (\<lambda>(m, bytes, base, endp). unat endp - unat base)") (simp, unat_arith)

declare search_loop.simps [simp del]

text \<open>
  \<^verbatim>\<open>SearchBytes\<close> returns \<^verbatim>\<open>NULL\<close> (\<open>None\<close>) or a new \<^verbatim>\<open>CPointer\<close>. \<open>oBytes\<close> is the
  content of the Python \<^verbatim>\<open>bytes\<close> object; its length is read into an
  \<^verbatim>\<open>unsigned long\<close>. The loop reads the pattern through the pointer that
  \<^verbatim>\<open>PyArg_Parse\<close> with format \<^verbatim>\<open>"y"\<close> stores, which it does for a pattern without NUL bytes:
  the search of a pattern that has one is outside the model.
\<close>

definition SearchBytes :: "world \<Rightarrow> ref \<Rightarrow> byte list \<Rightarrow> ulong \<Rightarrow> (error + ref option) \<times> world" where
  "SearchBytes w this oBytes ulNumBytes =
     (if m_ulAddr (objects w this) = 0 then (Inl InvalidPointer, w)
      else (let iByteLen = (of_nat (length oBytes) :: ulong) in
            if ulNumBytes < iByteLen then (Inl RangeTooSmall, w)
            else (let base = m_ulAddr (objects w this);
                      endp = m_ulAddr (objects w this) + ulNumBytes - (iByteLen - 1)
                  in case search_loop (memory w) oBytes base endp of
                       None \<Rightarrow> (Inr None, w)
                     | Some found \<Rightarrow>
                         (let (r, w') = new_CPointer w found in (Inr (Some r), w')))))"

text \<open>\<^verbatim>\<open>Copy\<close> tests \<^verbatim>\<open>ulDest\<close>, \<^verbatim>\<open>Move\<close> tests \<^verbatim>\<open>ulDest == 0\<close>.\<close>

definition Copy :: "world \<Rightarrow> ref \<Rightarrow> AddressLike \<Rightarrow> ulong \<Rightarrow> (error + unit) \<times> world" where
  "Copy w this oDest ulNumBytes =
     (let ulDest = ExtractPyPtr w oDest in
      if m_ulAddr (objects w this) = 0 \<or> ulDest \<noteq> 0 then (Inl InvalidPointer, w)
      else if IsOverlapping w this oDest ulNumBytes then (Inl OverlapViolation, w)
      else (Inr (),
            w\<lparr>memory :=
                memcpy (memory w) ulDest (m_ulAddr (objects w this)) (unat ulNumBytes)\<rparr>))"

definition Move :: "world \<Rightarrow> ref \<Rightarrow> AddressLike \<Rightarrow> ulong \<Rightarrow> (error + unit) \<times> world" where
  "Move w this oDest ulNumBytes =
     (let ulDest = ExtractPyPtr w oDest in
      if m_ulAddr (objects w this) = 0 \<or> ulDest = 0 then (Inl InvalidPointer, w)
      else (Inr (),
            w\<lparr>memory :=
                memmove (memory w) ulDest (m_ulAddr (objects w this)) (unat ulNumBytes)\<rparr>))"

text \<open>
  \<^verbatim>\<open>vtable[iIndex]\<close> on a \<^verbatim>\<open>void**\<close> reads the word at \<open>vtable + 4 * iIndex\<close>;
  \<^verbatim>\<open>new CPointer()\<close> wraps the default address 0.
\<close>

definition GetVirtualFunc :: "world \<Rightarrow> ref \<Rightarrow> cint \<Rightarrow> (error + ref) \<times> world" where
  "GetVirtualFunc w this iIndex =
     (if \<not> IsValid (objects w this) then (Inl InvalidPointer, w)
      else (let vtable = load_ulong (memory w) (m_ulAddr (objects w this)) in
            if vtable = 0 then (let (r, w') = new_CPointer w 0 in (Inr r, w'))
            else (let (r, w') = new_CPointer w (load_ulong (memory w) (vtable + 4 * iIndex))
                  in (Inr r, w'))))"

subsection \<open>CFunction\<close>

text \<open>
  The type tags are dyncall's signature characters. The \<^verbatim>\<open>switch\<close> statements of
  \<^verbatim>\<open>CFunction::Call\<close> name sixteen of them; \<open>DC_SIGCHAR_OTHER\<close> stands for every other
  value of the enumeration's underlying type.
\<close>

datatype sigchar =
    DC_SIGCHAR_VOID
  | DC_SIGCHAR_BOOL
  | DC_SIGCHAR_CHAR
  | DC_SIGCHAR_UCHAR
  | DC_SIGCHAR_SHORT
  | DC_SIGCHAR_USHORT
  | DC_SIGCHAR_INT
  | DC_SIGCHAR_UINT
  | DC_SIGCHAR_LONG
  | DC_SIGCHAR_ULONG
  | DC_SIGCHAR_LONGLONG
  | DC_SIGCHAR_ULONGLONG
  | DC_SIGCHAR_FLOAT
  | DC_SIGCHAR_DOUBLE
  | DC_SIGCHAR_POINTER
  | DC_SIGCHAR_STRING
  | DC_SIGCHAR_OTHER char

type_synonym Argument_t = sigchar
type_synonym ReturnType_t = sigchar

text \<open>
  Modelled from the spec: \<^verbatim>\<open>Convention_t\<close> is declared in a header that is not among the
  sources. The spec: "at minimum cdecl, stdcall, and a this-pointer-first convention".
\<close>

datatype Convention_t = CONV_CDECL | CONV_STDCALL | CONV_THISCALL

text \<open>\<^verbatim>\<open>CFunction\<close> has \<^verbatim>\<open>m_ulAddr\<close> and \<^verbatim>\<open>IsValid\<close> of \<^verbatim>\<open>CPointer\<close>, and three fields more.\<close>

record CFunction = CPointer +
  m_eConv :: Convention_t
  m_Args :: "Argument_t list"
  m_ReturnType :: ReturnType_t

definition new_CFunction :: "ulong \<Rightarrow> Convention_t \<Rightarrow> Argument_t list \<Rightarrow> ReturnType_t \<Rightarrow> CFunction" where
  "new_CFunction ulAddr eConv args return_type =
     \<lparr>m_ulAddr = ulAddr, m_eConv = eConv, m_Args = args, m_ReturnType = return_type\<rparr>"

definition MakeFunction ::
  "world \<Rightarrow> ref \<Rightarrow> Convention_t \<Rightarrow> Argument_t list \<Rightarrow> ReturnType_t \<Rightarrow> (error + CFunction) \<times> world" where
  "MakeFunction w this eConv args return_type =
     (if \<not> IsValid (objects w this) then (Inl InvalidPointer, w)
      else (Inr (new_CFunction (m_ulAddr (objects w this)) eConv args return_type), w))"

definition MakeVirtualFunction ::
  "world \<Rightarrow> ref \<Rightarrow> cint \<Rightarrow> Convention_t \<Rightarrow> Argument_t list \<Rightarrow> ReturnType_t
     \<Rightarrow> (error + CFunction) \<times> world" where
  "MakeVirtualFunction w this iIndex eConv args return_type =
     (case GetVirtualFunc w this iIndex of
        (Inl e, w') \<Rightarrow> (Inl e, w')
      | (Inr r, w') \<Rightarrow> MakeFunction w' r eConv args return_type)"

subsection \<open>The methods of CPointer, as one datatype\<close>

text \<open>
  One constructor per method of \<^verbatim>\<open>CPointer\<close> that \<^verbatim>\<open>memory_tools.cpp\<close> defines, with the
  method's arguments, so that a statement can speak of every method.
\<close>

datatype CPointer_call =
    Call_SetStringPtr "byte list" cint
  | Call_GetStringArray cint
  | Call_SetStringArray "byte list" cint
  | Call_GetPtr cint
  | Call_SetPtr ref cint
  | Call_Compare AddressLike ulong
  | Call_IsOverlapping AddressLike ulong
  | Call_SearchBytes "byte list" ulong
  | Call_Copy AddressLike ulong
  | Call_Move AddressLike ulong
  | Call_GetVirtualFunc cint
  | Call_MakeFunction Convention_t "Argument_t list" ReturnType_t
  | Call_MakeVirtualFunction cint Convention_t "Argument_t list" ReturnType_t

datatype result =
    ResNone
  | ResCharPtr ulong
  | ResPointer "ref option"
  | ResInt int
  | ResBool bool
  | ResFunction CFunction

definition returning :: "('a \<Rightarrow> result) \<Rightarrow> (error + 'a) \<times> world \<Rightarrow> (error + result) \<times> world" where
  "returning f rw = (case rw of (Inl e, w) \<Rightarrow> (Inl e, w) | (Inr x, w) \<Rightarrow> (Inr (f x), w))"

fun invoke :: "world \<Rightarrow> ref \<Rightarrow> CPointer_call \<Rightarrow> (error + result) \<times> world" where
  "invoke w this (Call_SetStringPtr szText iOffset) =
     returning (\<lambda>u. ResNone) (SetStringPtr w this szText iOffset)"
| "invoke w this (Call_GetStringArray iOffset) =
     returning ResCharPtr (GetStringArray w this iOffset)"
| "invoke w this (Call_SetStringArray szText iOffset) =
     returning (\<lambda>u. ResNone) (SetStringArray w this szText iOffset)"
| "invoke w this (Call_GetPtr iOffset) =
     returning (\<lambda>r. ResPointer (Some r)) (GetPtr w this iOffset)"
| "invoke w this (Call_SetPtr ptr iOffset) =
     returning (\<lambda>u. ResNone) (SetPtr w this ptr iOffset)"
| "invoke w this (Call_Compare oOther ulNum) =
     returning ResInt (Compare w this oOther ulNum)"
| "invoke w this (Call_IsOverlapping oOther ulNumBytes) =
     (Inr (ResBool (IsOverlapping w this oOther ulNumBytes)), w)"
| "invoke w this (Call_SearchBytes oBytes ulNumBytes) =
     returning ResPointer (SearchBytes w this oBytes ulNumBytes)"
| "invoke w this (Call_Copy oDest ulNumBytes) =
     returning (\<lambda>u. ResNone) (Copy w this oDest ulNumBytes)"
| "invoke w this (Call_Move oDest ulNumBytes) =
     returning (\<lambda>u. ResNone) (Move w this oDest ulNumBytes)"
| "invoke w this (Call_GetVirtualFunc iIndex) =
     returning (\<lambda>r. ResPointer (Some r)) (GetVirtualFunc w this iIndex)"
| "invoke w this (Call_MakeFunction eConv args return_type) =
     returning ResFunction (MakeFunction w this eConv args return_type)"
| "invoke w this (Call_MakeVirtualFunction iIndex eConv args return_type) =
     returning ResFunction (MakeVirtualFunction w this iIndex eConv args return_type)"

subsection \<open>CFunction::Call\<close>

text \<open>
  The call VM of dyncall (\<^verbatim>\<open>g_pCallVM\<close>): its mode and the arguments pushed so far, each
  with the \<^verbatim>\<open>dcArg...\<close> function that pushed it. dyncall, Boost.Python and the native
  code are outside the repository; what they compute is a parameter:
  \<^item> \<open>extract_arg t arg\<close>: the C value that the \<^verbatim>\<open>extract<...>\<close> (or \<^verbatim>\<open>ExtractPyPtr\<close>) of the
    \<^verbatim>\<open>case\<close> for tag \<open>t\<close> reads from the Python object \<open>arg\<close>, \<open>None\<close> when it raises;
  \<^item> \<open>GetDynCallConvention\<close>: the dyncall mode of a convention;
  \<^item> \<open>native k vm addr\<close>: what the native function at \<open>addr\<close> returns when called through
    \<^verbatim>\<open>dcCall...\<close> with the VM \<open>vm\<close>.
  Native calls are logged in \<open>native_calls\<close>, target address and VM contents.
\<close>

datatype dcArg =
    dcArgBool | dcArgChar | dcArgShort | dcArgInt | dcArgLong | dcArgLongLong
  | dcArgFloat | dcArgDouble | dcArgPointer

datatype dcCall =
    dcCallVoid | dcCallBool | dcCallChar | dcCallShort | dcCallInt | dcCallLong
  | dcCallLongLong | dcCallFloat | dcCallDouble | dcCallPointer

record 'v DCCallVM =
  vm_mode :: nat
  vm_args :: "(dcArg \<times> 'v) list"

record ('o, 'v) externals =
  extract_arg :: "Argument_t \<Rightarrow> 'o \<Rightarrow> 'v option"
  GetDynCallConvention :: "Convention_t \<Rightarrow> nat"
  native :: "dcCall \<Rightarrow> 'v DCCallVM \<Rightarrow> ulong \<Rightarrow> 'v"

record 'v call_state =
  g_pCallVM :: "'v DCCallVM"
  native_calls :: "(ulong \<times> 'v DCCallVM) list"

definition dcReset :: "'v DCCallVM \<Rightarrow> 'v DCCallVM" where
  "dcReset vm = vm\<lparr>vm_args := []\<rparr>"

definition dcMode :: "'v DCCallVM \<Rightarrow> nat \<Rightarrow> 'v DCCallVM" where
  "dcMode vm mode = vm\<lparr>vm_mode := mode\<rparr>"

definition dcArg :: "'v DCCallVM \<Rightarrow> dcArg \<Rightarrow> 'v \<Rightarrow> 'v DCCallVM" where
  "dcArg vm k v = vm\<lparr>vm_args := vm_args vm @ [(k, v)]\<rparr>"

text \<open>The first \<^verbatim>\<open>switch\<close>: the \<^verbatim>\<open>dcArg...\<close> function of each tag; \<open>None\<close> is \<^verbatim>\<open>default\<close>.\<close>

fun argument_case :: "Argument_t \<Rightarrow> dcArg option" where
  "argument_case DC_SIGCHAR_BOOL = Some dcArgBool"
| "argument_case DC_SIGCHAR_CHAR = Some dcArgChar"
| "argument_case DC_SIGCHAR_UCHAR = Some dcArgChar"
| "argument_case DC_SIGCHAR_SHORT = Some dcArgShort"
| "argument_case DC_SIGCHAR_USHORT = Some dcArgShort"
| "argument_case DC_SIGCHAR_INT = Some dcArgInt"
| "argument_case DC_SIGCHAR_UINT = Some dcArgInt"
| "argument_case DC_SIGCHAR_LONG = Some dcArgLong"
| "argument_case DC_SIGCHAR_ULONG = Some dcArgLong"
| "argument_case DC_SIGCHAR_LONGLONG = Some dcArgLongLong"
| "argument_case DC_SIGCHAR_ULONGLONG = Some dcArgLongLong"
| "argument_case DC_SIGCHAR_FLOAT = Some dcArgFloat"
| "argument_case DC_SIGCHAR_DOUBLE = Some dcArgDouble"
| "argument_case DC_SIGCHAR_POINTER = Some dcArgPointer"
| "argument_case DC_SIGCHAR_STRING = Some dcArgPointer"
| "argument_case DC_SIGCHAR_VOID = None"
| "argument_case (DC_SIGCHAR_OTHER c) = None"

text \<open>The second \<^verbatim>\<open>switch\<close>: the \<^verbatim>\<open>dcCall...\<close> function of each return tag.\<close>

fun return_case :: "ReturnType_t \<Rightarrow> dcCall option" where
  "return_case DC_SIGCHAR_VOID = Some dcCallVoid"
| "return_case DC_SIGCHAR_BOOL = Some dcCallBool"
| "return_case DC_SIGCHAR_CHAR = Some dcCallChar"
| "return_case DC_SIGCHAR_UCHAR = Some dcCallChar"
| "return_case DC_SIGCHAR_SHORT = Some dcCallShort"
| "return_case DC_SIGCHAR_USHORT = Some dcCallShort"
| "return_case DC_SIGCHAR_INT = Some dcCallInt"
| "return_case DC_SIGCHAR_UINT = Some dcCallInt"
| "return_case DC_SIGCHAR_LONG = Some dcCallLong"
| "return_case DC_SIGCHAR_ULONG = Some dcCallLong"
| "return_case DC_SIGCHAR_LONGLONG = Some dcCallLongLong"
| "return_case DC_SIGCHAR_ULONGLONG = Some dcCallLongLong"
| "return_case DC_SIGCHAR_FLOAT = Some dcCallFloat"
| "return_case DC_SIGCHAR_DOUBLE = Some dcCallDouble"
| "return_case DC_SIGCHAR_POINTER = Some dcCallPointer"
| "return_case DC_SIGCHAR_STRING = Some dcCallPointer"
| "return_case (DC_SIGCHAR_OTHER c) = None"

text \<open>
  The argument loop, from index \<open>i\<close> on: \<open>tags\<close> and \<open>args\<close> are what is left of
  \<^verbatim>\<open>m_Args\<close> and of the passed tuple. The loop runs over the passed tuple; \<^verbatim>\<open>m_Args[i]\<close>
  past the end of \<^verbatim>\<open>m_Args\<close> is Python's index error.
\<close>

fun push_args ::
  "('o, 'v) externals \<Rightarrow> 'v DCCallVM \<Rightarrow> Argument_t list \<Rightarrow> 'o list \<Rightarrow> (error + unit) \<times> 'v DCCallVM" where
  "push_args ext vm tags [] = (Inr (), vm)"
| "push_args ext vm [] (arg # args) = (Inl PythonError, vm)"
| "push_args ext vm (t # tags) (arg # args) =
     (case argument_case t of
        None \<Rightarrow> (Inl UnsupportedType, vm)
      | Some k \<Rightarrow>
          (case extract_arg ext t arg of
             None \<Rightarrow> (Inl PythonError, vm)
           | Some v \<Rightarrow> push_args ext (dcArg vm k v) tags args))"

text \<open>
  The value \<^verbatim>\<open>Call\<close> returns: \<^verbatim>\<open>object()\<close> (Python's \<^verbatim>\<open>None\<close>) after \<^verbatim>\<open>dcCallVoid\<close>, else
  the native result converted as the return tag says.
\<close>

datatype 'v pyobject = PyNone | PyValue ReturnType_t 'v

definition Call ::
  "('o, 'v) externals \<Rightarrow> 'v call_state \<Rightarrow> CFunction \<Rightarrow> 'o list
     \<Rightarrow> (error + 'v pyobject) \<times> 'v call_state" where
  "Call ext s this args =
     (if \<not> IsValid this then (Inl InvalidPointer, s)
      else if length args \<noteq> length (m_Args this) then (Inl ArgumentCountMismatch, s)
      else (let vm0 = dcMode (dcReset (g_pCallVM s)) (GetDynCallConvention ext (m_eConv this))
            in case push_args ext vm0 (m_Args this) args of
                 (Inl e, vm) \<Rightarrow> (Inl e, s\<lparr>g_pCallVM := vm\<rparr>)
               | (Inr u, vm) \<Rightarrow>
                   (case return_case (m_ReturnType this) of
                      None \<Rightarrow> (Inl UnsupportedType, s\<lparr>g_pCallVM := vm\<rparr>)
                    | Some k \<Rightarrow>
                        (let s' = s\<lparr>g_pCallVM := vm,
                                     native_calls := native_calls s @ [(m_ulAddr this, vm)]\<rparr>
                         in if k = dcCallVoid then (Inr PyNone, s')
                            else (Inr (PyValue (m_ReturnType this)
                                         (native ext k vm (m_ulAddr this))), s')))))"

subsection \<open>Hooks\<close>

text \<open>
  Modelled from the spec: the hook manager (\<^verbatim>\<open>CHookManager\<close>, \<^verbatim>\<open>CHook\<close>) belongs to the
  DynamicHooks library, which is not among the sources. The spec: one record per hooked
  address, holding the original address and the trampoline address, "created on first
  hook, reused on subsequent hooks of the same address"; \<^verbatim>\<open>FindHook\<close> is a lookup. A
  \<^verbatim>\<open>CHook*\<close> is identified with the address it hooks: the hook of a function is stored
  under \<^verbatim>\<open>m_ulAddr\<close>, and so are its callbacks in \<^verbatim>\<open>g_mapCallbacks\<close>. The handler list of a
  hook keeps a handler once, as the comment at the call of \<^verbatim>\<open>AddCallback\<close> says.
\<close>

datatype HookType_t = HOOKTYPE_PRE | HOOKTYPE_POST

datatype HookHandlerFn = SP_HookHandler

record CHook =
  m_pFunc :: ulong
  m_pTrampoline :: ulong
  m_eConvention :: Convention_t
  m_szParams :: string
  m_hookHandler :: "HookType_t \<Rightarrow> HookHandlerFn list"

type_synonym CHookManager = "ulong \<Rightarrow> CHook option"

definition FindHook :: "CHookManager \<Rightarrow> ulong \<Rightarrow> CHook option" where
  "FindHook mngr pFunc = mngr pFunc"

definition HookFunction ::
  "(ulong \<Rightarrow> ulong) \<Rightarrow> CHookManager \<Rightarrow> ulong \<Rightarrow> Convention_t \<Rightarrow> string \<Rightarrow> CHook \<times> CHookManager" where
  "HookFunction create_trampoline mngr pFunc eConvention szParams =
     (case FindHook mngr pFunc of
        Some pHook \<Rightarrow> (pHook, mngr)
      | None \<Rightarrow>
          (let pHook = \<lparr>m_pFunc = pFunc, m_pTrampoline = create_trampoline pFunc,
                        m_eConvention = eConvention, m_szParams = szParams,
                        m_hookHandler = (\<lambda>t. [])\<rparr>
           in (pHook, mngr(pFunc \<mapsto> pHook))))"

definition AddCallback :: "CHook \<Rightarrow> HookType_t \<Rightarrow> HookHandlerFn \<Rightarrow> CHook" where
  "AddCallback pHook eType pCallback =
     (if pCallback \<in> set (m_hookHandler pHook eType) then pHook
      else pHook\<lparr>m_hookHandler :=
                   (m_hookHandler pHook)(eType := m_hookHandler pHook eType @ [pCallback])\<rparr>)"

text \<open>
  The state of the hooking code: the hook manager \<^verbatim>\<open>g_pHookMngr\<close>, the callback registry
  \<^verbatim>\<open>g_mapCallbacks\<close> and the standard output (\<^verbatim>\<open>AddHook\<close> prints the signature string).
  \<^verbatim>\<open>g_mapCallbacks\<close> is a \<^verbatim>\<open>std::map\<close> of \<^verbatim>\<open>std::map\<close>s of \<^verbatim>\<open>std::list\<close>s that is only ever
  read through \<^verbatim>\<open>operator[]\<close>, which makes a missing entry an empty list: a total function
  with the empty list where nothing was stored. A callback handle (\<^verbatim>\<open>PyObject*\<close>) is a
  number.
\<close>

type_synonym PyObject = nat

record hook_state =
  g_pHookMngr :: CHookManager
  g_mapCallbacks :: "ulong \<Rightarrow> HookType_t \<Rightarrow> PyObject list"
  stdout :: "string list"

text \<open>
  Outside the repository, and parameters here: \<open>py_chr\<close>, the character Python's
  \<^verbatim>\<open>chr\<close> gives for a tag, and \<open>create_trampoline\<close>, the address of the trampoline the hook
  library builds for a function.
\<close>

record hook_externals =
  py_chr :: "sigchar \<Rightarrow> char"
  create_trampoline :: "ulong \<Rightarrow> ulong"

definition AddHook ::
  "hook_externals \<Rightarrow> hook_state \<Rightarrow> CFunction \<Rightarrow> HookType_t \<Rightarrow> PyObject
     \<Rightarrow> (error + PyObject) \<times> hook_state" where
  "AddHook ext s this eType pCallable =
     (if \<not> IsValid this then (Inl InvalidPointer, s)
      else (let szParams = map (py_chr ext) (m_Args this) @ '')'' @ [py_chr ext (m_ReturnType this)];
                (pHook, mngr) =
                   HookFunction (create_trampoline ext) (g_pHookMngr s) (m_ulAddr this)
                     (m_eConv this) szParams;
                pHook' = AddCallback pHook eType SP_HookHandler
            in (Inr pCallable,
                s\<lparr>stdout := stdout s @ [szParams],
                  g_pHookMngr := mngr(m_ulAddr this \<mapsto> pHook'),
                  g_mapCallbacks :=
                    (g_mapCallbacks s)
                      (m_ulAddr this :=
                         (g_mapCallbacks s (m_ulAddr this))
                           (eType := g_mapCallbacks s (m_ulAddr this) eType @ [pCallable]))\<rparr>)))"

text \<open>\<^verbatim>\<open>std::list::remove\<close> erases every element equal to its argument.\<close>

definition RemoveHook ::
  "hook_state \<Rightarrow> CFunction \<Rightarrow> HookType_t \<Rightarrow> PyObject \<Rightarrow> (error + unit) \<times> hook_state" where
  "RemoveHook s this eType pCallable =
     (if \<not> IsValid this then (Inl InvalidPointer, s)
      else (case FindHook (g_pHookMngr s) (m_ulAddr this) of
              None \<Rightarrow> (Inr (), s)
            | Some pHook \<Rightarrow>
                (Inr (),
                 s\<lparr>g_mapCallbacks :=
                     (g_mapCallbacks s)
                       (m_ulAddr this :=
                          (g_mapCallbacks s (m_ulAddr this))
                            (eType := removeAll pCallable (g_mapCallbacks s (m_ulAddr this) eType)))\<rparr>)))"

text \<open>
  \<^verbatim>\<open>CallTrampoline\<close> calls the trampoline of the function's hook with the function's
  convention and types.
\<close>

definition CallTrampoline ::
  "('o, 'v) externals \<Rightarrow> CHookManager \<Rightarrow> 'v call_state \<Rightarrow> CFunction \<Rightarrow> 'o list
     \<Rightarrow> (error + 'v pyobject) \<times> 'v call_state" where
  "CallTrampoline ext mngr s this args =
     (if \<not> IsValid this then (Inl InvalidPointer, s)
      else (case FindHook mngr (m_ulAddr this) of
              None \<Rightarrow> (Inl NotHooked, s)
            | Some pHook \<Rightarrow>
                Call ext s
                  (new_CFunction (m_pTrampoline pHook) (m_eConv this) (m_Args this)
                     (m_ReturnType this))
                  args))"

subsection \<open>Worlds and states for examples\<close>

definition zero_memory :: memory where
  "zero_memory = (\<lambda>a. 0)"

text \<open>Externals for examples: every argument converts to itself, every native call returns 42.\<close>

definition example_externals :: "(nat, nat) externals" where
  "example_externals =
     \<lparr>extract_arg = (\<lambda>t arg. Some arg), GetDynCallConvention = (\<lambda>c. 0),
      native = (\<lambda>k vm addr. 42)\<rparr>"

definition initial_call_state :: "nat call_state" where
  "initial_call_state = \<lparr>g_pCallVM = \<lparr>vm_mode = 0, vm_args = []\<rparr>, native_calls = []\<rparr>"

definition example_hook_externals :: hook_externals where
  "example_hook_externals =
     \<lparr>py_chr = (\<lambda>t. CHR ''i''), create_trampoline = (\<lambda>pFunc. pFunc + 0x100000)\<rparr>"

definition initial_hook_state :: hook_state where
  "initial_hook_state =
     \<lparr>g_pHookMngr = (\<lambda>pFunc. None), g_mapCallbacks = (\<lambda>pFunc eType. []), stdout = []\<rparr>"

text \<open>The function of the spec's scenario: parameters (int, pointer), result int.\<close>

definition example_function :: CFunction where
  "example_function =
     new_CFunction 0x1000 CONV_CDECL [DC_SIGCHAR_INT, DC_SIGCHAR_POINTER] DC_SIGCHAR_INT"

text \<open>A world for examples: the given bytes, and the given objects at references 0, 1, ...\<close>

definition mk_world :: "memory \<Rightarrow> ulong list \<Rightarrow> world" where
  "mk_world m addrs =
     \<lparr>memory = m,
      objects = (\<lambda>r. \<lparr>m_ulAddr = (if r < length addrs then addrs ! r else 0)\<rparr>),
      next_ref = length addrs\<rparr>"

text \<open>A hook state with the callback list 7, 8, 7 for the pre-hooks of the example function.\<close>

definition hooked_state :: hook_state where
  "hooked_state =
     snd (AddHook example_hook_externals
            (snd (AddHook example_hook_externals
                    (snd (AddHook example_hook_externals initial_hook_state example_function
                            HOOKTYPE_PRE 7))
                    example_function HOOKTYPE_PRE 8))
            example_function HOOKTYPE_PRE 7)"

subsection \<open>What the inner loop of SearchBytes accepts\<close>

text \<open>
  The pattern \<open>bs\<close> is accepted at the address \<open>p\<close> when, at each index, the byte of
  memory is 0x2A or equals the pattern byte.
\<close>

definition wildcard_match :: "memory \<Rightarrow> ulong \<Rightarrow> byte list \<Rightarrow> bool" where
  "wildcard_match m p bs
     = (\<forall>i<length bs. m (p + of_nat i) = 0x2A \<or> bs ! i = m (p + of_nat i))"

subsection \<open>The storage of the CPointer objects\<close>







subsection \<open>The spec's notion of overlap\<close>

text \<open>
  In the spec's words: "the half-open byte ranges \<open>[address, address+length)\<close> and
  \<open>[other.address, other.address+length)\<close> intersect", the ranges read as sets of
  numbers.
\<close>

definition ranges_intersect :: "ulong \<Rightarrow> ulong \<Rightarrow> ulong \<Rightarrow> bool" where
  "ranges_intersect A B n =
     ({unat A ..< unat A + unat n} \<inter> {unat B ..< unat B + unat n} \<noteq> {})"

section \<open>Properties\<close>

lemma load_store_same: "load_ulong (store_ulong m a v) a = v"
  unfolding load_ulong_def store_ulong_def
  apply simp
  apply (rule bit_word_eqI)
  subgoal for n
    by (cases "n < 8"; cases "n < 16"; cases "n < 24") (auto simp add: bit_simps)
  done

lemmas method_defs =
  SetStringPtr_def GetStringArray_def SetStringArray_def GetPtr_def SetPtr_def Compare_def
  SearchBytes_def Copy_def Move_def GetVirtualFunc_def MakeFunction_def
  MakeVirtualFunction_def

lemmas example_function_simps = example_function_def new_CFunction_def IsValid_def

subsection \<open>Copy\<close>

lemma Copy_nonzero_dest:
  "ExtractPyPtr w oDest \<noteq> 0 \<Longrightarrow> Copy w this oDest n = (Inl InvalidPointer, w)"
  by (simp add: Copy_def)

text \<open>
  Claim C1 says that \<^verbatim>\<open>Copy\<close> between two pointers with non-zero addresses fails only on
  overlap and copies otherwise. The code tests \<^verbatim>\<open>ulDest\<close> where \<^verbatim>\<open>Move\<close> tests
  \<^verbatim>\<open>ulDest == 0\<close>: from 0x1000 to 0x2000, four bytes, two ranges that do not overlap,
  \<^verbatim>\<open>Copy\<close> raises "At least one pointer is NULL." and copies nothing; to the
  destination 0 it raises nothing.
\<close>

theorem Copy_rejects_valid_destination:
  "Copy (mk_world zero_memory [0x1000, 0x2000]) 0 (RawPointer 1) 4
     = (Inl InvalidPointer, mk_world zero_memory [0x1000, 0x2000])
   \<and> fst (Copy (mk_world zero_memory [0x1000]) 0 (Address 0) 4) = Inr ()"
  by (simp add: Copy_def IsOverlapping_def ExtractPyPtr_def mk_world_def)

subsection \<open>SearchBytes\<close>

text \<open>
  Claim C2 says that \<^verbatim>\<open>SearchBytes\<close> finds the first position where every pattern byte
  equals the byte of memory or is the wildcard 0x2A, so that a pattern of wildcards
  matches at the first position. The inner loop compares the byte of memory with 0x2A,
  not the pattern byte: over four zero bytes at 0x1000 the pattern of two wildcards is
  not found, and a byte 0x2A of memory matches the pattern byte 0x41.
\<close>

theorem SearchBytes_wildcard_pattern_misses:
  "SearchBytes (mk_world zero_memory [0x1000]) 0 [0x2A, 0x2A] 4
     = (Inr None, mk_world zero_memory [0x1000])
   \<and> fst (SearchBytes (mk_world (zero_memory(0x1000 := 0x2A)) [0x1000]) 0 [0x41] 1)
        = Inr (Some 1)"
  by (simp add: SearchBytes_def mk_world_def zero_memory_def search_loop.simps
      new_CPointer_def)

text \<open>
  Claim C8: on a pointer with a non-zero address, \<^verbatim>\<open>SearchBytes\<close> fails with
  \<open>RangeTooSmall\<close> exactly when the search length is less than the length of the pattern,
  and then nothing else happens: the world, memory included, is as it was, whatever the
  memory holds. The pattern is a \<^verbatim>\<open>bytes\<close> object of a 32-bit process, so its length is
  below \<open>2 ^ 32\<close>.
\<close>

theorem SearchBytes_RangeTooSmall:
  assumes "m_ulAddr (objects w this) \<noteq> 0" and "length oBytes < 2 ^ 32"
  shows "(fst (SearchBytes w this oBytes ulNumBytes) = Inl RangeTooSmall)
           = (unat ulNumBytes < length oBytes)
         \<and> (unat ulNumBytes < length oBytes \<longrightarrow>
              SearchBytes w this oBytes ulNumBytes = (Inl RangeTooSmall, w))"
proof -
  have len: "unat (of_nat (length oBytes) :: ulong) = length oBytes"
    using assms(2) by (simp add: unat_of_nat)
  have lt: "(ulNumBytes < of_nat (length oBytes)) = (unat ulNumBytes < length oBytes)"
    by (simp add: word_less_nat_alt len)
  show ?thesis
    using assms(1)
    by (auto simp: SearchBytes_def Let_def lt split: option.splits prod.splits)
qed

theorem SearchBytes_RangeTooSmall_witness:
  "(fst (SearchBytes (mk_world zero_memory [0x1000]) 0 [1, 2, 3] 2) = Inl RangeTooSmall)
   \<and> SearchBytes (mk_world zero_memory [0x1000]) 0 [1, 2, 3] 2
        = (Inl RangeTooSmall, mk_world zero_memory [0x1000])
   \<and> fst (SearchBytes (mk_world zero_memory [0x1000]) 0 [1, 2, 3] 3) \<noteq> Inl RangeTooSmall"
  using SearchBytes_RangeTooSmall [of "mk_world zero_memory [0x1000]" 0 "[1, 2, 3]" 2]
    SearchBytes_RangeTooSmall [of "mk_world zero_memory [0x1000]" 0 "[1, 2, 3]" 3]
  by (simp add: mk_world_def)

lemma match_at_iff:
  "match_at m p bs
     = (\<forall>i<length bs. m (p + of_nat i) = 0x2A \<or> bs ! i = m (p + of_nat i))"
proof (induction bs arbitrary: p)
  case Nil
  then show ?case by simp
next
  case (Cons b bs)
  have shift: "\<And>i. p + 1 + of_nat i = p + (1 + of_nat i)"
    by (simp add: add.assoc)
  show ?case
    by (auto simp: Cons.IH All_less_Suc2 shift)
qed

lemma word_succ_le:
  fixes base p endp :: ulong
  assumes "base < endp"
  shows "(base + 1 \<le> p) = (base \<le> p \<and> p \<noteq> base)"
  using assms by unat_arith

lemma search_loop_Some:
  "search_loop m bs base endp = Some q \<Longrightarrow>
     base \<le> q \<and> q < endp \<and> match_at m q bs
     \<and> (\<forall>p. base \<le> p \<and> p < q \<longrightarrow> \<not> match_at m p bs)"
proof (induction m bs base endp rule: search_loop.induct)
  case (1 m bytes base endp)
  show ?case
  proof (cases "base < endp")
    case False
    with "1.prems" show ?thesis by (simp add: search_loop.simps)
  next
    case lt: True
    show ?thesis
    proof (cases "match_at m base bytes")
      case True
      with lt "1.prems" have "q = base" by (simp add: search_loop.simps)
      with lt True show ?thesis by auto
    next
      case False
      with lt "1.prems" have "search_loop m bytes (base + 1) endp = Some q"
        by (simp add: search_loop.simps)
      with "1.IH" lt False have ih:
        "base + 1 \<le> q \<and> q < endp \<and> match_at m q bytes
         \<and> (\<forall>p. base + 1 \<le> p \<and> p < q \<longrightarrow> \<not> match_at m p bytes)"
        by simp
      show ?thesis
        using ih False word_succ_le [OF lt] by metis
    qed
  qed
qed

lemma search_loop_None:
  "search_loop m bs base endp = None \<Longrightarrow>
     (\<forall>p. base \<le> p \<and> p < endp \<longrightarrow> \<not> match_at m p bs)"
proof (induction m bs base endp rule: search_loop.induct)
  case (1 m bytes base endp)
  show ?case
  proof (cases "base < endp")
    case False
    then show ?thesis by auto
  next
    case lt: True
    from "1.prems" lt
    have "(if match_at m base bytes then Some base
           else search_loop m bytes (base + 1) endp) = None"
      by (subst (asm) search_loop.simps) simp
    then have nm: "\<not> match_at m base bytes"
      and rest: "search_loop m bytes (base + 1) endp = None"
      by (simp_all split: if_splits)
    from "1.IH" lt nm rest have ih:
      "\<forall>p. base + 1 \<le> p \<and> p < endp \<longrightarrow> \<not> match_at m p bytes"
      by simp
    show ?thesis
      using ih nm word_succ_le [OF lt] by metis
  qed
qed


lemma match_at_wildcard_match: "match_at m p bs = wildcard_match m p bs"
  by (simp add: wildcard_match_def match_at_iff)

text \<open>
  What \<^verbatim>\<open>SearchBytes\<close> computes on a pointer with a non-zero address, when the range is
  not too small: with \<open>base\<close> the address and \<open>endp = base + ulNumBytes - (iByteLen - 1)\<close>,
  either it returns \<^verbatim>\<open>NULL\<close>, changes nothing, and the inner loop accepts the pattern at
  no address from \<open>base\<close> up to \<open>endp\<close>, or it returns a new pointer whose address is the
  first address from \<open>base\<close> up to \<open>endp\<close> at which the inner loop accepts the pattern;
  memory is as it was.
\<close>

theorem SearchBytes_first_match:
  assumes "m_ulAddr (objects w this) \<noteq> 0"
    and "\<not> ulNumBytes < of_nat (length oBytes)"
  shows
    "(fst (SearchBytes w this oBytes ulNumBytes) = Inr None
      \<and> snd (SearchBytes w this oBytes ulNumBytes) = w
      \<and> (\<forall>p. m_ulAddr (objects w this) \<le> p
              \<and> p < m_ulAddr (objects w this) + ulNumBytes - (of_nat (length oBytes) - 1)
              \<longrightarrow> \<not> wildcard_match (memory w) p oBytes))
     \<or> (\<exists>q. fst (SearchBytes w this oBytes ulNumBytes) = Inr (Some (next_ref w))
          \<and> m_ulAddr (objects (snd (SearchBytes w this oBytes ulNumBytes)) (next_ref w)) = q
          \<and> memory (snd (SearchBytes w this oBytes ulNumBytes)) = memory w
          \<and> m_ulAddr (objects w this) \<le> q
          \<and> q < m_ulAddr (objects w this) + ulNumBytes - (of_nat (length oBytes) - 1)
          \<and> wildcard_match (memory w) q oBytes
          \<and> (\<forall>p. m_ulAddr (objects w this) \<le> p \<and> p < q
                 \<longrightarrow> \<not> wildcard_match (memory w) p oBytes))"
proof -
  let ?base = "m_ulAddr (objects w this)"
  let ?endp = "?base + ulNumBytes - (of_nat (length oBytes) - 1)"
  show ?thesis
  proof (cases "search_loop (memory w) oBytes ?base ?endp")
    case None
    from search_loop_None [OF None]
    have "\<forall>p. ?base \<le> p \<and> p < ?endp \<longrightarrow> \<not> wildcard_match (memory w) p oBytes"
      by (simp add: match_at_wildcard_match)
    moreover have "SearchBytes w this oBytes ulNumBytes = (Inr None, w)"
      using assms None by (simp add: SearchBytes_def Let_def)
    ultimately show ?thesis by simp
  next
    case (Some q)
    from search_loop_Some [OF Some]
    have q: "?base \<le> q" "q < ?endp" "wildcard_match (memory w) q oBytes"
      "\<forall>p. ?base \<le> p \<and> p < q \<longrightarrow> \<not> wildcard_match (memory w) p oBytes"
      by (simp_all add: match_at_wildcard_match)
    have "SearchBytes w this oBytes ulNumBytes
            = (Inr (Some (next_ref w)),
               w\<lparr>objects := (objects w)(next_ref w := \<lparr>m_ulAddr = q\<rparr>),
                 next_ref := Suc (next_ref w)\<rparr>)"
      using assms Some by (simp add: SearchBytes_def Let_def new_CPointer_def)
    then show ?thesis using q by simp
  qed
qed

theorem SearchBytes_first_match_witness:
  "fst (SearchBytes (mk_world (zero_memory(0x1002 := 0x41)) [0x1000]) 0 [0x41] 4) = Inr (Some 1)
   \<and> m_ulAddr (objects (snd (SearchBytes (mk_world (zero_memory(0x1002 := 0x41)) [0x1000]) 0
                                [0x41] 4)) 1) = 0x1002
   \<and> wildcard_match (zero_memory(0x1002 := 0x41)) 0x1002 [0x41]
   \<and> \<not> wildcard_match (zero_memory(0x1002 := 0x41)) 0x1001 [0x41]"
proof -
  let ?m = "zero_memory(0x1002 := 0x41)"
  let ?w = "mk_world ?m [0x1000]"
  let ?res = "SearchBytes ?w 0 [0x41] 4"
  have r: "fst ?res = Inr (Some 1)" "m_ulAddr (objects (snd ?res) 1) = 0x1002"
    by (simp_all add: SearchBytes_def mk_world_def zero_memory_def search_loop.simps
        new_CPointer_def)
  have pre: "m_ulAddr (objects ?w 0) \<noteq> 0" "\<not> (4::ulong) < of_nat (length [0x41::byte])"
    by (simp_all add: mk_world_def)
  have w: "m_ulAddr (objects ?w 0) = 0x1000" "memory ?w = ?m" "next_ref ?w = 1"
    by (simp_all add: mk_world_def)
  have "fst ?res \<noteq> Inr None"
    using r(1) by simp
  with SearchBytes_first_match [OF pre]
  obtain q where q: "m_ulAddr (objects (snd ?res) (next_ref ?w)) = q"
    "wildcard_match (memory ?w) q [0x41]"
    "\<forall>p. m_ulAddr (objects ?w 0) \<le> p \<and> p < q \<longrightarrow> \<not> wildcard_match (memory ?w) p [0x41]"
    by blast
  from q(1) r(2) have "q = 0x1002"
    by (simp add: w(3))
  with q(2) q(3) have "wildcard_match ?m 0x1002 [0x41]"
    and "\<forall>p. (0x1000::ulong) \<le> p \<and> p < 0x1002 \<longrightarrow> \<not> wildcard_match ?m p [0x41]"
    by (simp_all add: w)
  moreover have "(0x1000::ulong) \<le> 0x1001 \<and> (0x1001::ulong) < 0x1002"
    by simp
  ultimately have "wildcard_match ?m 0x1002 [0x41]" "\<not> wildcard_match ?m 0x1001 [0x41]"
    by blast+
  with r show ?thesis by simp
qed

subsection \<open>SetPtr and GetPtr\<close>

text \<open>
  At offset 0 the round trip holds: on a pointer with a non-zero address, \<^verbatim>\<open>SetPtr\<close> of
  a pointer \<open>ptr\<close>, with any offset, followed by \<^verbatim>\<open>GetPtr(0)\<close> returns a new pointer with
  the address of \<open>ptr\<close>.
\<close>

theorem SetPtr_GetPtr_offset_0:
  assumes "IsValid (objects w this)"
  shows "fst (GetPtr (snd (SetPtr w this ptr iOffset)) this 0) = Inr (next_ref w)
         \<and> m_ulAddr (objects (snd (GetPtr (snd (SetPtr w this ptr iOffset)) this 0))
                     (next_ref w))
           = m_ulAddr (objects w ptr)"
  using assms by (simp add: SetPtr_def GetPtr_def new_CPointer_def load_store_same)

theorem SetPtr_GetPtr_offset_0_witness:
  "fst (GetPtr (snd (SetPtr (mk_world zero_memory [0x1000, 0xDEADBEEF]) 0 1 16)) 0 0) = Inr 2
   \<and> m_ulAddr (objects (snd (GetPtr (snd (SetPtr (mk_world zero_memory [0x1000, 0xDEADBEEF])
                                             0 1 16)) 0 0)) 2) = 0xDEADBEEF"
proof -
  let ?w = "mk_world zero_memory [0x1000, 0xDEADBEEF]"
  have v: "IsValid (objects ?w 0)"
    by (simp add: mk_world_def IsValid_def)
  have n: "next_ref ?w = 2" and p: "m_ulAddr (objects ?w 1) = 0xDEADBEEF"
    by (simp_all add: mk_world_def)
  show ?thesis
    using SetPtr_GetPtr_offset_0 [OF v, where ptr = 1 and iOffset = 16]
    by (simp only: n p)
qed

text \<open>
  Claim C3 says that \<^verbatim>\<open>SetPtr(P, O)\<close> followed by \<^verbatim>\<open>GetPtr(O)\<close> yields the address of
  \<open>P\<close>, for every offset \<open>O\<close>. \<^verbatim>\<open>SetPtr\<close> writes at \<^verbatim>\<open>m_ulAddr\<close> whatever the offset is,
  \<^verbatim>\<open>GetPtr\<close> reads at \<^verbatim>\<open>m_ulAddr + iOffset\<close>: with the pointer at 0x1000, \<open>P\<close> at
  0xDEADBEEF, offset 16 and zeroed memory, \<^verbatim>\<open>GetPtr(16)\<close> returns a new pointer (reference 2)
  whose address is 0.
\<close>

theorem SetPtr_ignores_offset:
  "fst (GetPtr (snd (SetPtr (mk_world zero_memory [0x1000, 0xDEADBEEF]) 0 1 16)) 0 16) = Inr 2
   \<and> m_ulAddr (objects (snd (GetPtr (snd (SetPtr (mk_world zero_memory [0x1000, 0xDEADBEEF])
                                             0 1 16)) 0 16)) 2) = 0
   \<and> m_ulAddr (objects (mk_world zero_memory [0x1000, 0xDEADBEEF]) 1) = 0xDEADBEEF"
  by (simp add: GetPtr_def SetPtr_def mk_world_def zero_memory_def IsValid_def new_CPointer_def
      load_ulong_def store_ulong_def)

subsection \<open>The validity check\<close>

text \<open>
  Claim C4, amended: every method of \<^verbatim>\<open>CPointer\<close> in the module other than
  \<^verbatim>\<open>IsOverlapping\<close> fails with \<open>InvalidPointer\<close> on a pointer whose address is 0, and the
  world, memory included, is as it was. (\<^verbatim>\<open>IsOverlapping\<close> has no validity check: it
  compares the two addresses and reads no memory.)
\<close>

theorem null_pointer_rejected:
  assumes "m_ulAddr (objects w this) = 0"
    and "\<forall>oOther ulNumBytes. c \<noteq> Call_IsOverlapping oOther ulNumBytes"
  shows "invoke w this c = (Inl InvalidPointer, w)"
  using assms
  by (cases c) (simp_all add: method_defs returning_def IsValid_def Let_def)

theorem null_pointer_rejected_witness:
  "invoke (mk_world zero_memory [0, 0x2000]) 0 (Call_Move (RawPointer 1) 4)
     = (Inl InvalidPointer, mk_world zero_memory [0, 0x2000])"
  using null_pointer_rejected [of "mk_world zero_memory [0, 0x2000]" 0 "Call_Move (RawPointer 1) 4"]
  by (simp add: mk_world_def)

text \<open>
  Claim C4 as stated names \<^verbatim>\<open>IsOverlapping\<close> among the methods that fail: on a pointer
  with address 0 it returns a boolean.
\<close>

theorem IsOverlapping_accepts_null:
  "fst (invoke (mk_world zero_memory [0]) 0 (Call_IsOverlapping (Address 0) 0))
     \<noteq> Inl InvalidPointer"
  by simp

subsection \<open>IsOverlapping\<close>

lemma ivl_inter_nonempty:
  "({a ..< a + n} \<inter> {b ..< b + n} \<noteq> {}) = (0 < n \<and> a < b + n \<and> b < a + (n::nat))"
  by (auto simp: Int_atLeastLessThan max_def min_def)

lemma overlap_words:
  fixes a b n :: ulong
  assumes "a \<le> b" "unat a + unat n < 2 ^ 32"
  shows "(b < a + n) = ranges_intersect a b n"
proof -
  have "unat (a + n) = unat a + unat n"
    using assms(2) by (simp add: unat_add_lem [THEN iffD1])
  then show ?thesis
    using assms(1) unfolding ranges_intersect_def ivl_inter_nonempty
    by (auto simp: word_less_nat_alt word_le_nat_alt)
qed

lemma ranges_intersect_commute: "ranges_intersect a b n = ranges_intersect b a n"
  by (auto simp: ranges_intersect_def)

text \<open>
  Claim C9, amended: \<^verbatim>\<open>IsOverlapping\<close> is symmetric for all addresses and lengths, and it
  says whether the ranges \<open>[A, A+n)\<close> and \<open>[B, B+n)\<close> intersect whenever the lower of the
  two ranges ends below the top of the address space (\<open>min A B + n < 2 ^ 32\<close>, so that
  the sum the code compares does not wrap around).
\<close>

theorem IsOverlapping_symmetric:
  "IsOverlapping w a (RawPointer b) n = IsOverlapping w b (RawPointer a) n
   \<and> (unat (min (m_ulAddr (objects w a)) (ExtractPyPtr w oOther)) + unat n < 2 ^ 32 \<longrightarrow>
        IsOverlapping w a oOther n
          = ranges_intersect (m_ulAddr (objects w a)) (ExtractPyPtr w oOther) n)"
proof (intro conjI impI)
  show "IsOverlapping w a (RawPointer b) n = IsOverlapping w b (RawPointer a) n"
    by (auto simp: IsOverlapping_def ExtractPyPtr_def Let_def)
next
  let ?A = "m_ulAddr (objects w a)" and ?B = "ExtractPyPtr w oOther"
  assume h: "unat (min ?A ?B) + unat n < 2 ^ 32"
  show "IsOverlapping w a oOther n = ranges_intersect ?A ?B n"
  proof (cases "?A \<le> ?B")
    case True
    then show ?thesis
      using h overlap_words [of ?A ?B n] by (simp add: IsOverlapping_def Let_def min_def)
  next
    case False
    then have "?B \<le> ?A" by simp
    then show ?thesis
      using h False overlap_words [of ?B ?A n] ranges_intersect_commute [of ?A ?B n]
      by (simp add: IsOverlapping_def Let_def min_def)
  qed
qed

theorem IsOverlapping_symmetric_witness:
  "IsOverlapping (mk_world zero_memory [0x1000, 0x1004]) 0 (RawPointer 1) 8
     = IsOverlapping (mk_world zero_memory [0x1000, 0x1004]) 1 (RawPointer 0) 8
   \<and> IsOverlapping (mk_world zero_memory [0x1000, 0x1004]) 0 (RawPointer 1) 8
   \<and> ranges_intersect 0x1000 0x1004 8"
  using IsOverlapping_symmetric [of "mk_world zero_memory [0x1000, 0x1004]" 0 1 8 "RawPointer 1"]
  by (simp add: mk_world_def ExtractPyPtr_def IsOverlapping_def)

text \<open>
  Claim C9 as stated, for all addresses: the 32 bytes from 0xFFFFFFF0 and the 32 bytes
  from 0xFFFFFFF8 share the byte at 0xFFFFFFF8, but \<open>0xFFFFFFF0 + 0x20\<close> wraps around to
  0x10 and \<^verbatim>\<open>IsOverlapping\<close> answers no.
\<close>

theorem IsOverlapping_wraps_counterexample:
  "IsOverlapping (mk_world zero_memory [0xFFFFFFF0, 0xFFFFFFF8]) 0 (RawPointer 1) 0x20
     \<noteq> ranges_intersect 0xFFFFFFF0 0xFFFFFFF8 0x20"
proof -
  have "(0xFFFFFFF8::nat)
          \<in> {unat (0xFFFFFFF0::ulong) ..< unat (0xFFFFFFF0::ulong) + unat (0x20::ulong)}
              \<inter> {unat (0xFFFFFFF8::ulong) ..< unat (0xFFFFFFF8::ulong) + unat (0x20::ulong)}"
    by simp
  then have "ranges_intersect 0xFFFFFFF0 0xFFFFFFF8 0x20"
    unfolding ranges_intersect_def by blast
  moreover have
    "\<not> IsOverlapping (mk_world zero_memory [0xFFFFFFF0, 0xFFFFFFF8]) 0 (RawPointer 1) 0x20"
    by (simp add: IsOverlapping_def ExtractPyPtr_def mk_world_def)
  ultimately show ?thesis by simp
qed

subsection \<open>The objects are never modified\<close>























subsection \<open>Call\<close>

lemma push_args_no_count_error:
  "fst (push_args ext vm tags args) \<noteq> Inl ArgumentCountMismatch"
  by (induction ext vm tags args rule: push_args.induct) (auto split: option.splits)

lemma Call_example:
  "Call example_externals initial_call_state example_function [7, 8]
     = (Inr (PyValue DC_SIGCHAR_INT 42),
        \<lparr>g_pCallVM = \<lparr>vm_mode = 0, vm_args = [(dcArgInt, 7), (dcArgPointer, 8)]\<rparr>,
         native_calls =
           [(0x1000, \<lparr>vm_mode = 0, vm_args = [(dcArgInt, 7), (dcArgPointer, 8)]\<rparr>)]\<rparr>)"
  by (simp add: Call_def example_externals_def initial_call_state_def example_function_simps
      dcMode_def dcReset_def dcArg_def)

text \<open>
  Claim C7: on a function with a non-zero address, \<^verbatim>\<open>Call\<close> fails with
  \<open>ArgumentCountMismatch\<close> if and only if the number of arguments passed differs from
  the number of tags in \<^verbatim>\<open>m_Args\<close>; the state is then as it was: the call VM is
  untouched and the log of native calls has no new entry.
\<close>

theorem Call_ArgumentCountMismatch:
  assumes "IsValid this"
  shows "(fst (Call ext s this args) = Inl ArgumentCountMismatch)
           = (length args \<noteq> length (m_Args this))
         \<and> (length args \<noteq> length (m_Args this) \<longrightarrow>
              Call ext s this args = (Inl ArgumentCountMismatch, s))"
proof (cases "length args = length (m_Args this)")
  case False
  then show ?thesis using assms by (simp add: Call_def)
next
  case True
  let ?vm0 = "dcMode (dcReset (g_pCallVM s)) (GetDynCallConvention ext (m_eConv this))"
  obtain r vm where p: "push_args ext ?vm0 (m_Args this) args = (r, vm)"
    by (cases "push_args ext ?vm0 (m_Args this) args")
  have "r \<noteq> Inl ArgumentCountMismatch"
    using push_args_no_count_error [of ext ?vm0 "m_Args this" args] p by simp
  then have "fst (Call ext s this args) \<noteq> Inl ArgumentCountMismatch"
    using assms True p
    by (auto simp: Call_def Let_def split: sum.splits option.splits)
  then show ?thesis using True by simp
qed

theorem Call_ArgumentCountMismatch_witness:
  "fst (Call example_externals initial_call_state example_function [1]) = Inl ArgumentCountMismatch
   \<and> Call example_externals initial_call_state example_function [1, 2, 3]
        = (Inl ArgumentCountMismatch, initial_call_state)
   \<and> fst (Call example_externals initial_call_state example_function [1, 2])
        \<noteq> Inl ArgumentCountMismatch"
  using Call_ArgumentCountMismatch [of example_function example_externals initial_call_state "[1]"]
    Call_ArgumentCountMismatch [of example_function example_externals initial_call_state "[1, 2, 3]"]
    Call_ArgumentCountMismatch [of example_function example_externals initial_call_state "[1, 2]"]
  by (simp add: example_function_simps)

subsection \<open>AddHook and RemoveHook\<close>

lemma hooked_state_callbacks: "g_mapCallbacks hooked_state 0x1000 HOOKTYPE_PRE = [7, 8, 7]"
  by (simp add: hooked_state_def AddHook_def Let_def example_function_simps
      initial_hook_state_def split: prod.splits)

lemma hooked_state_hook: "FindHook (g_pHookMngr hooked_state) 0x1000 \<noteq> None"
  by (simp add: hooked_state_def AddHook_def Let_def example_function_simps
      initial_hook_state_def FindHook_def split: prod.splits)

text \<open>
  Claim C6, amended: on a function with a non-zero address, \<^verbatim>\<open>AddHook\<close> appends the
  callback handle to the callback list of the function's hook and the given phase,
  whether or not the handle is in the list already, and leaves every other callback list
  as it was; it returns the handle it was given.
\<close>

theorem AddHook_appends:
  assumes "IsValid this"
  shows "fst (AddHook ext s this eType pCallable) = Inr pCallable
         \<and> g_mapCallbacks (snd (AddHook ext s this eType pCallable)) (m_ulAddr this) eType
             = g_mapCallbacks s (m_ulAddr this) eType @ [pCallable]
         \<and> (\<forall>pFunc t. (pFunc, t) \<noteq> (m_ulAddr this, eType) \<longrightarrow>
               g_mapCallbacks (snd (AddHook ext s this eType pCallable)) pFunc t
                 = g_mapCallbacks s pFunc t)"
  using assms by (auto simp: AddHook_def Let_def split: prod.splits)

theorem AddHook_appends_witness:
  "fst (AddHook example_hook_externals initial_hook_state example_function HOOKTYPE_PRE 7) = Inr 7
   \<and> g_mapCallbacks
        (snd (AddHook example_hook_externals initial_hook_state example_function HOOKTYPE_PRE 7))
        0x1000 HOOKTYPE_PRE = [7]
   \<and> g_mapCallbacks
        (snd (AddHook example_hook_externals initial_hook_state example_function HOOKTYPE_PRE 7))
        0x1000 HOOKTYPE_POST = []"
  using AddHook_appends [of example_function example_hook_externals initial_hook_state
      HOOKTYPE_PRE 7]
  by (simp add: example_function_simps initial_hook_state_def)

text \<open>
  Claim C6 as stated, no handle twice in a list: after two calls of \<^verbatim>\<open>AddHook\<close> with the
  handle 7, the list of pre-hook callbacks holds 7 twice.
\<close>

theorem AddHook_duplicates_counterexample:
  "\<not> distinct
       (g_mapCallbacks
          (snd (AddHook example_hook_externals
                  (snd (AddHook example_hook_externals initial_hook_state example_function
                          HOOKTYPE_PRE 7))
                  example_function HOOKTYPE_PRE 7))
          0x1000 HOOKTYPE_PRE)"
  by (simp add: AddHook_def Let_def example_function_simps initial_hook_state_def
      split: prod.splits)

text \<open>
  Claim C5, amended: on a function with a non-zero address, \<^verbatim>\<open>RemoveHook\<close> returns without
  an error; it changes nothing when the address has no hook or the handle is not in the
  phase's callback list; on a hooked address it removes every entry equal to the handle
  from that phase's list, and changes nothing else.
\<close>

theorem RemoveHook_removes_all:
  assumes "IsValid this"
  shows "fst (RemoveHook s this eType pCallable) = Inr ()
         \<and> (FindHook (g_pHookMngr s) (m_ulAddr this) = None
              \<or> pCallable \<notin> set (g_mapCallbacks s (m_ulAddr this) eType) \<longrightarrow>
            snd (RemoveHook s this eType pCallable) = s)
         \<and> (FindHook (g_pHookMngr s) (m_ulAddr this) \<noteq> None \<longrightarrow>
              snd (RemoveHook s this eType pCallable) =
                s\<lparr>g_mapCallbacks :=
                    (g_mapCallbacks s)
                      (m_ulAddr this :=
                         (g_mapCallbacks s (m_ulAddr this))
                           (eType :=
                              removeAll pCallable (g_mapCallbacks s (m_ulAddr this) eType)))\<rparr>)"
  using assms by (auto simp: RemoveHook_def split: option.splits)

theorem RemoveHook_removes_all_witness:
  "g_mapCallbacks (snd (RemoveHook hooked_state example_function HOOKTYPE_PRE 7)) 0x1000
     HOOKTYPE_PRE = [8]
   \<and> snd (RemoveHook hooked_state example_function HOOKTYPE_PRE 9) = hooked_state
   \<and> snd (RemoveHook initial_hook_state example_function HOOKTYPE_PRE 7) = initial_hook_state"
proof -
  have v: "IsValid example_function" "m_ulAddr example_function = 0x1000"
    by (simp_all add: example_function_simps)
  have a: "snd (RemoveHook hooked_state example_function HOOKTYPE_PRE 7) =
             hooked_state\<lparr>g_mapCallbacks :=
                (g_mapCallbacks hooked_state)
                  (0x1000 := (g_mapCallbacks hooked_state 0x1000)(HOOKTYPE_PRE := [8]))\<rparr>"
    using RemoveHook_removes_all [OF v(1), of hooked_state HOOKTYPE_PRE 7]
      hooked_state_hook hooked_state_callbacks by (simp add: v(2))
  have b: "snd (RemoveHook hooked_state example_function HOOKTYPE_PRE 9) = hooked_state"
    using RemoveHook_removes_all [OF v(1), of hooked_state HOOKTYPE_PRE 9]
      hooked_state_callbacks by (simp add: v(2))
  have c: "snd (RemoveHook initial_hook_state example_function HOOKTYPE_PRE 7)
             = initial_hook_state"
    using RemoveHook_removes_all [OF v(1), of initial_hook_state HOOKTYPE_PRE 7]
    by (simp add: v(2) initial_hook_state_def FindHook_def)
  show ?thesis using a b c by simp
qed

text \<open>
  Claim C5 as stated, only the first matching entry goes: from the list 7, 8, 7
  \<^verbatim>\<open>RemoveHook\<close> with the handle 7 leaves 8, not 8, 7.
\<close>

theorem RemoveHook_first_only_counterexample:
  "g_mapCallbacks (snd (RemoveHook hooked_state example_function HOOKTYPE_PRE 7)) 0x1000
     HOOKTYPE_PRE
     \<noteq> remove1 7 (g_mapCallbacks hooked_state 0x1000 HOOKTYPE_PRE)"
proof -
  have "g_mapCallbacks (snd (RemoveHook hooked_state example_function HOOKTYPE_PRE 7)) 0x1000
          HOOKTYPE_PRE = [8]"
    using hooked_state_hook hooked_state_callbacks
    by (auto simp: RemoveHook_def example_function_simps split: option.splits)
  then show ?thesis by (simp add: hooked_state_callbacks)
qed

subsection \<open>CallTrampoline\<close>

text \<open>
  On a function with a non-zero address, \<^verbatim>\<open>CallTrampoline\<close> fails with \<open>NotHooked\<close> when
  the hook manager has no hook for the address, and leaves the state as it was; after
  \<^verbatim>\<open>AddHook\<close> on the function it is \<^verbatim>\<open>Call\<close> on the trampoline of the hook, with the
  convention and the types of the function.
\<close>

theorem CallTrampoline_NotHooked:
  assumes "IsValid this"
  shows "(FindHook mngr (m_ulAddr this) = None \<longrightarrow>
            CallTrampoline ext mngr s this args = (Inl NotHooked, s))
         \<and> CallTrampoline ext (g_pHookMngr (snd (AddHook hext hs this eType pCallable))) s
               this args
             = Call ext s
                 (new_CFunction
                    (case FindHook (g_pHookMngr hs) (m_ulAddr this) of
                       None \<Rightarrow> create_trampoline hext (m_ulAddr this)
                     | Some pHook \<Rightarrow> m_pTrampoline pHook)
                    (m_eConv this) (m_Args this) (m_ReturnType this))
                 args"
  using assms
  by (auto simp: CallTrampoline_def AddHook_def HookFunction_def AddCallback_def FindHook_def
      Let_def split: option.splits prod.splits)

theorem CallTrampoline_NotHooked_witness:
  "CallTrampoline example_externals (g_pHookMngr initial_hook_state) initial_call_state
     example_function [1, 2] = (Inl NotHooked, initial_call_state)
   \<and> fst (CallTrampoline example_externals
            (g_pHookMngr (snd (AddHook example_hook_externals initial_hook_state
                                 example_function HOOKTYPE_PRE 7)))
            initial_call_state example_function [1, 2])
        = Inr (PyValue DC_SIGCHAR_INT 42)"
proof -
  have v: "IsValid example_function" by (simp add: example_function_def new_CFunction_def IsValid_def)
  have n: "FindHook (g_pHookMngr initial_hook_state) (m_ulAddr example_function) = None"
    by (simp add: FindHook_def initial_hook_state_def)
  have c: "fst (Call example_externals initial_call_state
             (new_CFunction (create_trampoline example_hook_externals (m_ulAddr example_function))
                (m_eConv example_function) (m_Args example_function)
                (m_ReturnType example_function)) [1, 2]) = Inr (PyValue DC_SIGCHAR_INT 42)"
    by (simp add: Call_def example_externals_def example_hook_externals_def
        initial_call_state_def example_function_def new_CFunction_def IsValid_def Let_def)
  show ?thesis
    using CallTrampoline_NotHooked [OF v, of "g_pHookMngr initial_hook_state" example_externals
        initial_call_state "[1, 2]" example_hook_externals initial_hook_state HOOKTYPE_PRE 7]
      n c
    by simp
qed

end
